theory Spec2Isabelle
  imports Complex_Main
begin

section \<open>NewsTracker (news-tracker.js, version 1.1.0): data model\<close>

text \<open>
  The active variant of the widget is the class \<open>NewsTracker\<close> at the top of
  \<^verbatim>\<open>src/news-tracker.js\<close>. Its fields become the record \<open>tracker\<close>; the parts of
  the browser it talks to (the clock behind \<^verbatim>\<open>performance.now()\<close>, the pending
  \<^verbatim>\<open>requestAnimationFrame\<close> callbacks, the pending \<^verbatim>\<open>setTimeout\<close> timers) become the
  record \<open>browser\<close>. Every method is a function on the pair of both.

  JavaScript numbers are modelled as real numbers: rounding is not modelled. Where the
  source would compute a value that is no real number (a division by zero, arithmetic on
  \<^verbatim>\<open>undefined\<close>) the model stops with the outcome \<open>NonFinite\<close>; it never uses HOL's
  \<open>x / 0 = 0\<close>. A thrown \<^verbatim>\<open>TypeError\<close> (a property read on \<^verbatim>\<open>null\<close> or
  \<^verbatim>\<open>undefined\<close>) is the outcome \<open>TypeError\<close>, which carries the state as it was
  when the exception left the method.
\<close>

datatype 'a outcome = Ok 'a | TypeError 'a | NonFinite

definition bind :: "'a outcome \<Rightarrow> ('a \<Rightarrow> 'b outcome) \<Rightarrow> ('a \<Rightarrow> 'b) \<Rightarrow> 'b outcome" where
  "bind r f g = (case r of Ok x \<Rightarrow> f x | TypeError x \<Rightarrow> TypeError (g x) | NonFinite \<Rightarrow> NonFinite)"

record theme =
  background :: string
  text_color :: string
  itemBg :: string
  itemBorder :: string

record article =
  category :: string
  title :: string
  url :: string

text \<open>
  \<open>themes\<close> is a plain JavaScript object: its own properties in insertion order, as an
  association list. \<open>newsData\<close> is the array of articles.
\<close>

record config =
  newsData :: "article list"
  themes :: "(string \<times> theme) list"
  scrollSpeed :: real
  autoStart :: bool
  idleTimeout :: real

text \<open>
  The constructor's \<open>options\<close> argument: a key that is absent is \<open>None\<close>, and
  \<^verbatim>\<open>{ ...defaultOptions, ...options }\<close> keeps the default for it.
\<close>

record options =
  opt_newsData :: "article list option"
  opt_themes :: "(string \<times> theme) list option"
  opt_scrollSpeed :: "real option"
  opt_autoStart :: "bool option"
  opt_idleTimeout :: "real option"

text \<open>
  The container element, as far as the class touches it: the two inline style
  properties \<open>setTheme\<close> writes, and its content. \<open>ticker = None\<close> is a container whose
  \<^verbatim>\<open>innerHTML\<close> holds no ticker structure (so \<^verbatim>\<open>querySelector\<close> finds nothing);
  \<open>ticker = Some items\<close> holds the structure of \<open>createTickerStructure\<close>, and \<open>items\<close>
  are the \<^verbatim>\<open>.nt-news-item\<close> elements inside it (both tracks), each with the two inline
  style properties \<open>setTheme\<close> writes. The empty string is a property that is not set.
\<close>

record item =
  item_backgroundColor :: string
  item_border :: string

record element =
  style_backgroundColor :: string
  style_color :: string
  ticker :: "item list option"
  listening :: bool

text \<open>
  Fields that the constructor does not assign are \<^verbatim>\<open>undefined\<close> until a method
  sets them: \<open>None\<close>. \<open>contentElements\<close> is the array \<^verbatim>\<open>[content, clone]\<close> of the two
  track elements; of each the model keeps the pixel value of its inline
  \<^verbatim>\<open>transform: translateX(..px)\<close>, \<open>None\<close> while no transform is set.
\<close>

record tracker =
  config :: config
  container :: "element option"
  currentTheme :: string
  isScrolling :: bool
  scrollPosition :: real
  contentWidth :: real
  animationFrameId :: "nat option"
  isDragging :: bool
  isHovered :: bool
  idleTimeoutId :: "nat option"
  lastFrameTime :: "real option"
  startX :: "real option"
  startScrollPosition :: "real option"
  contentElements :: "real option list option"

text \<open>
  The browser: \<open>clock\<close> is the value of \<^verbatim>\<open>performance.now()\<close> in milliseconds,
  \<open>frames\<close> the handles of the pending animation-frame callbacks, \<open>timers\<close> the handles
  of the pending timeouts with the time each is due, \<open>fired\<close> the log of the timeouts
  that have run (handle and time), \<open>styleSheets\<close> the number of style elements appended
  to the document head and \<open>resizeListeners\<close> the number of resize listeners on the
  window. Handles are positive integers, a fresh one for every request.
\<close>

record browser =
  clock :: real
  frames :: "nat list"
  nextFrame :: nat
  timers :: "(nat \<times> real) list"
  nextTimer :: nat
  fired :: "(nat \<times> real) list"
  styleSheets :: nat
  resizeListeners :: nat

type_synonym world = "browser \<times> tracker"

section \<open>Browser primitives\<close>

definition requestAnimationFrame :: "browser \<Rightarrow> nat \<times> browser" where
  "requestAnimationFrame b =
     (Suc (nextFrame b),
      b\<lparr>frames := frames b @ [Suc (nextFrame b)], nextFrame := Suc (nextFrame b)\<rparr>)"

definition cancelAnimationFrame :: "nat \<Rightarrow> browser \<Rightarrow> browser" where
  "cancelAnimationFrame i b = b\<lparr>frames := removeAll i (frames b)\<rparr>"

text \<open>
  \<^verbatim>\<open>setTimeout(f, ms)\<close>: a delay below zero counts as zero. \<^verbatim>\<open>clearTimeout\<close> of
  \<^verbatim>\<open>null\<close> or of a handle that is not pending does nothing.
\<close>

definition setTimeout :: "real \<Rightarrow> browser \<Rightarrow> nat \<times> browser" where
  "setTimeout ms b =
     (Suc (nextTimer b),
      b\<lparr>timers := timers b @ [(Suc (nextTimer b), clock b + max 0 ms)],
        nextTimer := Suc (nextTimer b)\<rparr>)"

definition clearTimeout :: "nat option \<Rightarrow> browser \<Rightarrow> browser" where
  "clearTimeout h b =
     (case h of
        None \<Rightarrow> b
      | Some i \<Rightarrow> b\<lparr>timers := filter (\<lambda>p. fst p \<noteq> i) (timers b)\<rparr>)"

section \<open>The class\<close>

definition defaultOptions :: config where
  "defaultOptions =
     \<lparr>newsData = [],
      themes =
        [(''default'', \<lparr>background = ''#f0f0f0'', text_color = ''#333'',
                        itemBg = ''#fff'', itemBorder = ''#ddd''\<rparr>),
         (''dark'', \<lparr>background = ''#1a1a1a'', text_color = ''#fff'',
                     itemBg = ''#333'', itemBorder = ''#444''\<rparr>),
         (''blue'', \<lparr>background = ''#e3f2fd'', text_color = ''#0d47a1'',
                     itemBg = ''#bbdefb'', itemBorder = ''#90caf9''\<rparr>),
         (''green'', \<lparr>background = ''#e8f5e9'', text_color = ''#2e7d32'',
                      itemBg = ''#c8e6c9'', itemBorder = ''#a5d6a7''\<rparr>),
         (''modern'', \<lparr>background = ''#212121'', text_color = ''#00ff9d'',
                       itemBg = ''#424242'', itemBorder = ''#00ff9d''\<rparr>)],
      scrollSpeed = 100,
      autoStart = True,
      idleTimeout = 5\<rparr>"

definition merge_options :: "options \<Rightarrow> config" where
  "merge_options opts =
     \<lparr>newsData = (case opt_newsData opts of None \<Rightarrow> newsData defaultOptions | Some v \<Rightarrow> v),
      themes = (case opt_themes opts of None \<Rightarrow> themes defaultOptions | Some v \<Rightarrow> v),
      scrollSpeed =
        (case opt_scrollSpeed opts of None \<Rightarrow> scrollSpeed defaultOptions | Some v \<Rightarrow> v),
      autoStart = (case opt_autoStart opts of None \<Rightarrow> autoStart defaultOptions | Some v \<Rightarrow> v),
      idleTimeout =
        (case opt_idleTimeout opts of None \<Rightarrow> idleTimeout defaultOptions | Some v \<Rightarrow> v)\<rparr>"

subsection \<open>Themes\<close>

text \<open>
  \<^verbatim>\<open>this.config.themes[themeName]\<close> is a property read on a plain object: an own
  property wins, and a name that is no own property is looked up on
  \<^verbatim>\<open>Object.prototype\<close>, whose members (functions, and the accessor \<^verbatim>\<open>__proto__\<close>)
  are truthy values without any of the four theme fields. Every other name reads
  \<^verbatim>\<open>undefined\<close>.
\<close>

definition object_prototype_keys :: "string list" where
  "object_prototype_keys =
     [''constructor'', ''__defineGetter__'', ''__defineSetter__'', ''hasOwnProperty'',
      ''__lookupGetter__'', ''__lookupSetter__'', ''isPrototypeOf'',
      ''propertyIsEnumerable'', ''toString'', ''valueOf'', ''__proto__'',
      ''toLocaleString'']"

datatype themeval = ThemeObject theme | PrototypeMember

definition get_theme :: "(string \<times> theme) list \<Rightarrow> string \<Rightarrow> themeval option" where
  "get_theme ths name =
     (case map_of ths name of
        Some th \<Rightarrow> Some (ThemeObject th)
      | None \<Rightarrow> if name \<in> set object_prototype_keys then Some PrototypeMember else None)"

datatype jsval = Undefined | Str string

definition get_field :: "(theme \<Rightarrow> string) \<Rightarrow> themeval \<Rightarrow> jsval" where
  "get_field f v = (case v of ThemeObject th \<Rightarrow> Str (f th) | PrototypeMember \<Rightarrow> Undefined)"

text \<open>
  An assignment to a property of an element's \<^verbatim>\<open>style\<close>: the value is turned into a
  string and parsed as CSS, and a value that does not parse (such as the string
  \<^verbatim>\<open>undefined\<close> that \<^verbatim>\<open>undefined\<close> turns into) leaves the property as it was. The
  strings of a theme are taken to be valid CSS values.
\<close>

definition css_assign :: "string \<Rightarrow> jsval \<Rightarrow> string" where
  "css_assign old v = (case v of Undefined \<Rightarrow> old | Str s \<Rightarrow> s)"

definition css_assign_border :: "string \<Rightarrow> jsval \<Rightarrow> string" where
  "css_assign_border old v = (case v of Undefined \<Rightarrow> old | Str s \<Rightarrow> ''1px solid '' @ s)"

definition setTheme :: "string \<Rightarrow> tracker \<Rightarrow> tracker outcome" where
  "setTheme themeName t =
     (case get_theme (themes (config t)) themeName of
        None \<Rightarrow> Ok t
      | Some th \<Rightarrow>
          let t1 = t\<lparr>currentTheme := themeName\<rparr> in
          (case container t1 of
             None \<Rightarrow> TypeError t1
           | Some el \<Rightarrow>
               let el1 = el\<lparr>style_backgroundColor :=
                              css_assign (style_backgroundColor el) (get_field background th)\<rparr>;
                   el2 = el1\<lparr>style_color :=
                              css_assign (style_color el1) (get_field text_color th)\<rparr>;
                   el3 = el2\<lparr>ticker :=
                     map_option (map (\<lambda>it.
                       it\<lparr>item_backgroundColor :=
                            css_assign (item_backgroundColor it) (get_field itemBg th),
                          item_border :=
                            css_assign_border (item_border it) (get_field itemBorder th)\<rparr>))
                       (ticker el2)\<rparr>
               in Ok (t1\<lparr>container := Some el3\<rparr>)))"

subsection \<open>Building the ticker\<close>

definition injectStyles :: "browser \<Rightarrow> browser" where
  "injectStyles b = b\<lparr>styleSheets := Suc (styleSheets b)\<rparr>"

definition createTickerStructure :: "tracker \<Rightarrow> tracker outcome" where
  "createTickerStructure t =
     (case container t of
        None \<Rightarrow> TypeError t
      | Some el \<Rightarrow> Ok (t\<lparr>container := Some (el\<lparr>ticker := Some []\<rparr>)\<rparr>))"

text \<open>
  \<open>generateNewsItems\<close> takes the value the browser returns for \<^verbatim>\<open>content.offsetWidth\<close>
  as its argument \<open>w\<close>. The items are created anew, without inline style, once in the
  primary track and once more in the clone. The two track elements are those found in
  the container, so the array keeps the transforms they already carry.
\<close>

definition generateNewsItems :: "real \<Rightarrow> tracker \<Rightarrow> tracker outcome" where
  "generateNewsItems w t =
     (case container t of
        None \<Rightarrow> TypeError t
      | Some el \<Rightarrow>
          (case ticker el of
             None \<Rightarrow> TypeError t
           | Some old \<Rightarrow>
               let fresh = map (\<lambda>a. \<lparr>item_backgroundColor = '''', item_border = ''''\<rparr>)
                             (newsData (config t))
               in Ok (t\<lparr>container := Some (el\<lparr>ticker := Some (fresh @ fresh)\<rparr>),
                        contentElements :=
                          (case contentElements t of
                             None \<Rightarrow> Some [None, None]
                           | Some els \<Rightarrow> Some els),
                        contentWidth := w\<rparr>)))"

definition updateNews :: "article list \<Rightarrow> real \<Rightarrow> tracker \<Rightarrow> tracker outcome" where
  "updateNews newData w t =
     generateNewsItems w (t\<lparr>config := (config t)\<lparr>newsData := newData\<rparr>\<rparr>)"

subsection \<open>The render loop\<close>

definition applyScrollPosition :: "tracker \<Rightarrow> tracker outcome" where
  "applyScrollPosition t =
     (let translateX = - scrollPosition t in
      case contentElements t of
        None \<Rightarrow> TypeError t
      | Some els \<Rightarrow> Ok (t\<lparr>contentElements := Some (map (\<lambda>el. Some translateX) els)\<rparr>))"

text \<open>
  One run of \<open>animationLoop\<close>. \<^verbatim>\<open>now - this.lastFrameTime\<close> with an undefined
  \<open>lastFrameTime\<close>, and the division by a \<open>scrollSpeed\<close> of zero, leave the real numbers.
\<close>

definition animationLoop :: "world \<Rightarrow> world outcome" where
  "animationLoop w =
     (case w of (b, t) \<Rightarrow>
        if \<not> isScrolling t then Ok (b, t)
        else
          (case lastFrameTime t of
             None \<Rightarrow> NonFinite
           | Some lastTime \<Rightarrow>
               let now = clock b;
                   deltaTime = now - lastTime;
                   t1 = t\<lparr>lastFrameTime := Some now\<rparr>
               in
               if scrollSpeed (config t1) = 0 then NonFinite
               else
                 let pixelsPerSecond = (contentWidth t1 / 2) / scrollSpeed (config t1);
                     t2 = t1\<lparr>scrollPosition :=
                               scrollPosition t1 + (deltaTime / 1000) * pixelsPerSecond\<rparr>;
                     t3 = (if scrollPosition t2 \<ge> contentWidth t2
                           then t2\<lparr>scrollPosition := scrollPosition t2 - contentWidth t2\<rparr>
                           else t2)
                 in bind (applyScrollPosition t3)
                      (\<lambda>t4. case requestAnimationFrame b of
                               (i, b') \<Rightarrow> Ok (b', t4\<lparr>animationFrameId := Some i\<rparr>))
                      (\<lambda>t4. (b, t4))))"

definition start :: "world \<Rightarrow> world outcome" where
  "start w =
     (case w of (b, t) \<Rightarrow>
        if isScrolling t \<or> contentWidth t = 0 then Ok (b, t)
        else animationLoop (b, t\<lparr>isScrolling := True, lastFrameTime := Some (clock b)\<rparr>))"

definition pause :: "world \<Rightarrow> world" where
  "pause w =
     (case w of (b, t) \<Rightarrow>
        let t1 = t\<lparr>isScrolling := False\<rparr> in
        (case animationFrameId t1 of
           None \<Rightarrow> (b, t1)
         | Some i \<Rightarrow>
             if i \<noteq> 0 then (cancelAnimationFrame i b, t1\<lparr>animationFrameId := None\<rparr>)
             else (b, t1)))"



subsection \<open>The idle timer\<close>

definition recordInteraction :: "world \<Rightarrow> world" where
  "recordInteraction w =
     (case w of (b, t) \<Rightarrow>
        let b1 = clearTimeout (idleTimeoutId t) b in
        (case setTimeout (idleTimeout (config t) * 1000) b1 of
           (i, b2) \<Rightarrow> (b2, t\<lparr>idleTimeoutId := Some i\<rparr>)))"

text \<open>The function that \<open>recordInteraction\<close> hands to \<^verbatim>\<open>setTimeout\<close>.\<close>

definition idleExpired :: "world \<Rightarrow> world outcome" where
  "idleExpired w =
     (case w of (b, t) \<Rightarrow>
        if \<not> isDragging t \<and> \<not> isHovered t then start (b, t) else Ok (b, t))"

text \<open>
  The browser runs a pending timeout \<open>(i, due)\<close>: the handle leaves the pending ones, the
  clock stands at the time the timeout was due (or later), the run is logged and the
  callback runs. A handle that is no longer pending runs nothing.

  \<open>advance T\<close> lets the time pass until \<open>T\<close>: the timeouts due by then run in the order
  they are due, then the clock stands at \<open>T\<close>. Frame callbacks are run by \<open>runFrame\<close>,
  not here. A run ends at the first callback that throws.
\<close>

definition fireTimer :: "nat \<times> real \<Rightarrow> world \<Rightarrow> world outcome" where
  "fireTimer p w =
     (case w of (b, t) \<Rightarrow>
        if p \<in> set (timers b)
        then idleExpired
               (b\<lparr>timers := filter (\<lambda>q. fst q \<noteq> fst p) (timers b),
                  clock := max (clock b) (snd p),
                  fired := fired b @ [(fst p, max (clock b) (snd p))]\<rparr>, t)
        else Ok (b, t))"

fun fireTimers :: "(nat \<times> real) list \<Rightarrow> world \<Rightarrow> world outcome" where
  "fireTimers [] w = Ok w"
| "fireTimers (p # ps) w = bind (fireTimer p w) (fireTimers ps) id"

definition advance :: "real \<Rightarrow> world \<Rightarrow> world outcome" where
  "advance T w =
     bind (fireTimers (sort_key snd (filter (\<lambda>p. snd p \<le> T) (timers (fst w)))) w)
       (\<lambda>w'. Ok ((fst w')\<lparr>clock := max (clock (fst w')) T\<rparr>, snd w'))
       id"

text \<open>
  A run of interactions at the times \<open>ats\<close>: before each the time passes until it, then
  \<open>recordInteraction\<close> is called.
\<close>

fun interactions :: "real list \<Rightarrow> world \<Rightarrow> world outcome" where
  "interactions [] w = Ok w"
| "interactions (a # ats) w =
     bind (advance a w) (interactions ats \<circ> recordInteraction) id"

subsection \<open>Pointer and touch handlers\<close>

text \<open>
  A mouse event is given by its \<^verbatim>\<open>clientX\<close>, a touch event by the \<^verbatim>\<open>clientX\<close> of
  each entry of its \<^verbatim>\<open>touches\<close>; \<^verbatim>\<open>e.touches[0].clientX\<close> throws when the list is
  empty. \<^verbatim>\<open>e.preventDefault()\<close> acts on the event only and is left out.
\<close>

definition handleTouchStart :: "real list \<Rightarrow> world \<Rightarrow> world outcome" where
  "handleTouchStart touches w =
     (case w of (b, t) \<Rightarrow>
        let t1 = t\<lparr>isDragging := True\<rparr> in
        (case touches of
           [] \<Rightarrow> TypeError (b, t1)
         | clientX # rest \<Rightarrow>
             let t2 = t1\<lparr>startX := Some clientX\<rparr>;
                 t3 = t2\<lparr>startScrollPosition := Some (scrollPosition t2)\<rparr>
             in Ok (recordInteraction (pause (b, t3)))))"


definition handleTouchEnd :: "world \<Rightarrow> world" where
  "handleTouchEnd w = (case w of (b, t) \<Rightarrow> recordInteraction (b, t\<lparr>isDragging := False\<rparr>))"

definition handleMouseDown :: "real \<Rightarrow> world \<Rightarrow> world" where
  "handleMouseDown clientX w =
     (case w of (b, t) \<Rightarrow>
        let t1 = t\<lparr>isDragging := True\<rparr>;
            t2 = t1\<lparr>startX := Some clientX\<rparr>;
            t3 = t2\<lparr>startScrollPosition := Some (scrollPosition t2)\<rparr>
        in recordInteraction (pause (b, t3)))"


definition handleMouseUp :: "world \<Rightarrow> world" where
  "handleMouseUp w = (case w of (b, t) \<Rightarrow> recordInteraction (b, t\<lparr>isDragging := False\<rparr>))"





subsection \<open>Listeners, construction and destruction\<close>

text \<open>
  The listeners of \<open>addEventListeners\<close> that are arrow functions of their own.
  \<open>onResize\<close> takes the \<^verbatim>\<open>offsetWidth\<close> the browser measures as its argument; the
  \<^verbatim>\<open>querySelector\<close> in it finds nothing in a container without ticker structure.
\<close>

definition onMouseEnter :: "world \<Rightarrow> world" where
  "onMouseEnter w = (case w of (b, t) \<Rightarrow> pause (b, t\<lparr>isHovered := True\<rparr>))"

definition onMouseLeave :: "world \<Rightarrow> world outcome" where
  "onMouseLeave w =
     (case w of (b, t) \<Rightarrow>
        let t1 = t\<lparr>isHovered := False\<rparr> in
        if \<not> isDragging t1 then start (b, t1) else Ok (b, t1))"

definition onResize :: "real \<Rightarrow> world \<Rightarrow> world outcome" where
  "onResize measured w =
     (case w of (b, t) \<Rightarrow>
        (case container t of
           None \<Rightarrow> TypeError (b, t)
         | Some el \<Rightarrow>
             (case ticker el of
                None \<Rightarrow> TypeError (b, t)
              | Some items \<Rightarrow> Ok (b, t\<lparr>contentWidth := measured\<rparr>))))"

definition addEventListeners :: "world \<Rightarrow> world outcome" where
  "addEventListeners w =
     (case w of (b, t) \<Rightarrow>
        (case container t of
           None \<Rightarrow> TypeError (b, t)
         | Some el \<Rightarrow>
             (case ticker el of
                None \<Rightarrow> TypeError (b, t)
              | Some items \<Rightarrow>
                  Ok (b\<lparr>resizeListeners := Suc (resizeListeners b)\<rparr>,
                      t\<lparr>container := Some (el\<lparr>listening := True\<rparr>)\<rparr>))))"

definition initialize :: "real \<Rightarrow> world \<Rightarrow> world outcome" where
  "initialize measured w =
     (case w of (b, t) \<Rightarrow>
        let b1 = injectStyles b in
        bind (bind (bind (createTickerStructure t) (generateNewsItems measured) id)
                (setTheme ''default'') id)
          (\<lambda>t3. addEventListeners (b1, t3))
          (\<lambda>t3. (b1, t3)))"

text \<open>
  \<^verbatim>\<open>new NewsTracker(options)\<close>: \<open>found\<close> is what \<^verbatim>\<open>document.querySelector\<close> returns
  for the container selector, \<open>measured\<close> the \<^verbatim>\<open>offsetWidth\<close> of the primary track
  once the items are in it.
\<close>

definition constructor :: "options \<Rightarrow> element option \<Rightarrow> real \<Rightarrow> browser \<Rightarrow> world outcome" where
  "constructor opts found measured b =
     (let t = \<lparr>config = merge_options opts,
                container = found,
                currentTheme = ''default'',
                isScrolling = False,
                scrollPosition = 0,
                contentWidth = 0,
                animationFrameId = None,
                isDragging = False,
                isHovered = False,
                idleTimeoutId = None,
                lastFrameTime = None,
                startX = None,
                startScrollPosition = None,
                contentElements = None\<rparr>
      in case container t of
           None \<Rightarrow> Ok (b, t)
         | Some el \<Rightarrow>
             bind (initialize measured (b, t))
               (\<lambda>w1. if autoStart (config (snd w1)) then start w1 else Ok w1)
               id)"

text \<open>
  \<open>destroy\<close>: \<^verbatim>\<open>this.handleResize\<close> is defined nowhere in the class, so
  \<^verbatim>\<open>removeEventListener('resize', undefined)\<close> removes no listener. Assigning the
  empty string to \<^verbatim>\<open>innerHTML\<close> and to \<^verbatim>\<open>style\<close> empties the container and its
  inline style.
\<close>

definition destroy :: "world \<Rightarrow> world outcome" where
  "destroy w =
     (case pause w of (b, t) \<Rightarrow>
        (case container t of
           None \<Rightarrow> TypeError (b, t)
         | Some el \<Rightarrow>
             Ok (b, t\<lparr>container :=
                        Some (el\<lparr>ticker := None,
                                 style_backgroundColor := '''',
                                 style_color := ''''\<rparr>)\<rparr>)))"

text \<open>The number of callbacks the browser still holds for the tracker.\<close>

definition scheduled :: "browser \<Rightarrow> nat" where
  "scheduled b = length (frames b) + length (timers b)"

section \<open>A sample ticker\<close>

text \<open>
  The inputs of the concrete runs below: a browser in which nothing is pending, an empty
  container element, one article, and the default options around it. \<open>started\<close> is
  the world that the constructor returns for them when the primary track measures
  1000 pixels (lemma \<open>started_reachable\<close> below). The other trackers are variations
  of it: \<open>dragging\<close> is in the middle of a drag that began at pointer position 200 and
  scroll position 50, with the driver stopped; \<open>idle_browser\<close> is the browser with no
  frame callback pending, which goes with the trackers whose driver is stopped.
\<close>

definition browser0 :: browser where
  "browser0 =
     \<lparr>clock = 0, frames = [], nextFrame = 0, timers = [], nextTimer = 0, fired = [],
      styleSheets = 0, resizeListeners = 0\<rparr>"

definition empty_container :: element where
  "empty_container =
     \<lparr>style_backgroundColor = [], style_color = [], ticker = None, listening = False\<rparr>"

definition sample_news :: "article list" where
  "sample_news =
     [\<lparr>category = ''Technology'', title = ''Tech Breakthrough'', url = ''/tech''\<rparr>]"

definition sample_options :: options where
  "sample_options =
     \<lparr>opt_newsData = Some sample_news, opt_themes = None, opt_scrollSpeed = None,
      opt_autoStart = None, opt_idleTimeout = None\<rparr>"

definition started_browser :: browser where
  "started_browser =
     \<lparr>clock = 0, frames = [1], nextFrame = 1, timers = [], nextTimer = 0, fired = [],
      styleSheets = 1, resizeListeners = 1\<rparr>"

definition started_tracker :: tracker where
  "started_tracker =
     \<lparr>config = merge_options sample_options,
      container =
        Some \<lparr>style_backgroundColor = ''#f0f0f0'', style_color = ''#333'',
               ticker =
                 Some [\<lparr>item_backgroundColor = ''#fff'', item_border = ''1px solid #ddd''\<rparr>,
                       \<lparr>item_backgroundColor = ''#fff'', item_border = ''1px solid #ddd''\<rparr>],
               listening = True\<rparr>,
      currentTheme = ''default'',
      isScrolling = True,
      scrollPosition = 0,
      contentWidth = 1000,
      animationFrameId = Some 1,
      isDragging = False,
      isHovered = False,
      idleTimeoutId = None,
      lastFrameTime = Some 0,
      startX = None,
      startScrollPosition = None,
      contentElements = Some [Some 0, Some 0]\<rparr>"

definition idle_browser :: browser where
  "idle_browser = started_browser\<lparr>frames := []\<rparr>"

definition started :: world where
  "started = (started_browser, started_tracker)"

definition dragging :: tracker where
  "dragging =
     started_tracker\<lparr>isScrolling := False, scrollPosition := 50, animationFrameId := None,
       isDragging := True, startX := Some 200, startScrollPosition := Some 50\<rparr>"

text \<open>
  \<open>paused\<close> has the driver stopped at scroll position 50 and no frame callback
  requested; \<open>hovering\<close> is the same with the pointer over the container.
\<close>

definition paused :: tracker where
  "paused =
     started_tracker\<lparr>isScrolling := False, scrollPosition := 50, animationFrameId := None\<rparr>"

definition hovering :: tracker where
  "hovering = paused\<lparr>isHovered := True\<rparr>"

text \<open>
  \<open>reversed\<close> is the started tracker of a ticker that was constructed with the option
  \<open>scrollSpeed: -100\<close>, \<open>impatient\<close> the paused tracker of one configured with
  \<open>idleTimeout: 0\<close>.
\<close>

definition reversed :: tracker where
  "reversed = started_tracker\<lparr>config := (config started_tracker)\<lparr>scrollSpeed := - 100\<rparr>\<rparr>"

definition impatient :: tracker where
  "impatient = paused\<lparr>config := (config paused)\<lparr>idleTimeout := 0\<rparr>\<rparr>"

text \<open>
  \<open>touched\<close> is the run in which a finger touches the started ticker at position 200
  and lifts again; \<open>destroyed\<close> is that run followed by \<open>destroy\<close>.
\<close>

definition touched :: "world outcome" where
  "touched = bind (handleTouchStart [200] started) (Ok \<circ> handleTouchEnd) id"

definition destroyed :: "world outcome" where
  "destroyed = bind touched destroy id"

text \<open>
  What a run shows of its final world: \<open>observe f r\<close> is \<open>f\<close> of the world that the
  run \<open>r\<close> ended in, and nothing for a run that threw or left the real numbers.
\<close>

definition observe :: "(world \<Rightarrow> 'a) \<Rightarrow> world outcome \<Rightarrow> 'a option" where
  "observe f r = (case r of Ok w \<Rightarrow> Some (f w) | TypeError w \<Rightarrow> None | NonFinite \<Rightarrow> None)"


text \<open>
  \<open>gaps_below d ts\<close>: the times \<open>ts\<close> do not decrease and two neighbours are less than
  \<open>d\<close> apart.
\<close>

fun gaps_below :: "real \<Rightarrow> real list \<Rightarrow> bool" where
  "gaps_below d [] = True"
| "gaps_below d [a] = True"
| "gaps_below d (a # c # ts) = (a \<le> c \<and> c - a < d \<and> gaps_below d (c # ts))"

section \<open>Notions of the specification\<close>


section \<open>Drag moves (C3)\<close>








text \<open>The sample world is the one the constructor builds.\<close>

lemma started_reachable:
  "constructor sample_options (Some empty_container) 1000 browser0 = Ok started"
  by (simp add: constructor_def initialize_def bind_def createTickerStructure_def
      generateNewsItems_def setTheme_def get_theme_def get_field_def css_assign_def
      css_assign_border_def addEventListeners_def injectStyles_def start_def
      animationLoop_def applyScrollPosition_def requestAnimationFrame_def
      merge_options_def defaultOptions_def sample_options_def sample_news_def
      empty_container_def browser0_def started_def started_browser_def started_tracker_def
      Let_def)



section \<open>The render loop and the idle expiry (C9, C1, C2)\<close>

text \<open>
  One frame callback of a running driver, written out: the handle requested, the time
  stamp taken, the position advanced and wrapped once, both tracks translated.
\<close>

lemma animationLoop_step:
  assumes "isScrolling t" "lastFrameTime t = Some l" "scrollSpeed (config t) \<noteq> 0"
    "contentElements t = Some els"
  shows "animationLoop (b, t) =
    Ok (b\<lparr>frames := frames b @ [Suc (nextFrame b)], nextFrame := Suc (nextFrame b)\<rparr>,
        t\<lparr>lastFrameTime := Some (clock b),
          scrollPosition :=
            (let p = scrollPosition t +
                 ((clock b - l) / 1000) * ((contentWidth t / 2) / scrollSpeed (config t))
             in if p \<ge> contentWidth t then p - contentWidth t else p),
          contentElements := Some (map (\<lambda>el. Some (-
            (let p = scrollPosition t +
                 ((clock b - l) / 1000) * ((contentWidth t / 2) / scrollSpeed (config t))
             in if p \<ge> contentWidth t then p - contentWidth t else p))) els),
          animationFrameId := Some (Suc (nextFrame b))\<rparr>)"
  using assms
  by (simp add: animationLoop_def applyScrollPosition_def requestAnimationFrame_def bind_def Let_def)

text \<open>
  Claim C9. When the idle timer expires while \<open>isHovered\<close> (or \<open>isDragging\<close>) is true, the
  handler changes nothing, so the driver is not started, also when \<open>isDragging\<close> is
  false. When both flags are false the handler is the call \<open>start()\<close>. For a paused
  ticker that has content (a measured width other than 0, its two track elements, a
  scroll speed other than 0), the driver runs after the expiry exactly when both flags
  are false.
\<close>

theorem idle_expiry_respects_flags:
  "(isHovered t \<or> isDragging t \<longrightarrow> idleExpired (b, t) = Ok (b, t)) \<and>
   (\<not> isDragging t \<and> \<not> isHovered t \<longrightarrow> idleExpired (b, t) = start (b, t)) \<and>
   (\<not> isScrolling t \<and> contentWidth t \<noteq> 0 \<and> scrollSpeed (config t) \<noteq> 0 \<and>
    contentElements t = Some els \<longrightarrow>
      (observe (isScrolling \<circ> snd) (idleExpired (b, t)) = Some True) =
        (\<not> isDragging t \<and> \<not> isHovered t))"
proof (intro conjI impI)
  assume "isHovered t \<or> isDragging t"
  then show "idleExpired (b, t) = Ok (b, t)" by (auto simp: idleExpired_def)
next
  assume "\<not> isDragging t \<and> \<not> isHovered t"
  then show "idleExpired (b, t) = start (b, t)" by (simp add: idleExpired_def)
next
  assume a: "\<not> isScrolling t \<and> contentWidth t \<noteq> 0 \<and> scrollSpeed (config t) \<noteq> 0 \<and>
    contentElements t = Some els"
  let ?t = "t\<lparr>isScrolling := True, lastFrameTime := Some (clock b)\<rparr>"
  have "\<exists>w. animationLoop (b, ?t) = Ok w \<and> isScrolling (snd w)"
    using animationLoop_step [of ?t "clock b" els b] a by simp
  then have "observe (isScrolling \<circ> snd) (start (b, t)) = Some True"
    using a by (auto simp: start_def observe_def)
  moreover have "observe (isScrolling \<circ> snd) (Ok (b, t)) \<noteq> Some True"
    using a by (simp add: observe_def)
  ultimately show "(observe (isScrolling \<circ> snd) (idleExpired (b, t)) = Some True) =
        (\<not> isDragging t \<and> \<not> isHovered t)"
    by (auto simp: idleExpired_def)
qed


theorem idle_expiry_respects_flags_witness:
  "idleExpired (idle_browser, hovering) = Ok (idle_browser, hovering) \<and>
   idleExpired (idle_browser, dragging) = Ok (idle_browser, dragging) \<and>
   idleExpired (idle_browser, paused) = start (idle_browser, paused) \<and>
   observe (isScrolling \<circ> snd) (idleExpired (idle_browser, paused)) = Some True \<and>
   observe (isScrolling \<circ> snd) (idleExpired (idle_browser, hovering)) \<noteq> Some True"
proof -
  have h: "isHovered hovering \<or> isDragging hovering"
    by (simp add: hovering_def)
  have d: "isHovered dragging \<or> isDragging dragging"
    by (simp add: dragging_def)
  have p: "\<not> isDragging paused \<and> \<not> isHovered paused"
    by (simp add: paused_def started_tracker_def)
  have ready: "\<not> isScrolling paused \<and> contentWidth paused \<noteq> 0 \<and>
      scrollSpeed (config paused) \<noteq> 0 \<and> contentElements paused = Some [Some 0, Some 0]"
    by (simp add: paused_def started_tracker_def merge_options_def sample_options_def
        defaultOptions_def)
  have ready': "\<not> isScrolling hovering \<and> contentWidth hovering \<noteq> 0 \<and>
      scrollSpeed (config hovering) \<noteq> 0 \<and> contentElements hovering = Some [Some 0, Some 0]"
    using ready by (simp add: hovering_def)
  note H = idle_expiry_respects_flags [of hovering idle_browser "[Some 0, Some 0]"]
  note D = idle_expiry_respects_flags [of dragging idle_browser "[Some 0, Some 0]"]
  note P = idle_expiry_respects_flags [of paused idle_browser "[Some 0, Some 0]"]
  from H h have 1: "idleExpired (idle_browser, hovering) = Ok (idle_browser, hovering)"
    by blast
  from D d have 2: "idleExpired (idle_browser, dragging) = Ok (idle_browser, dragging)"
    by blast
  from P p have 3: "idleExpired (idle_browser, paused) = start (idle_browser, paused)"
    by blast
  from P p ready
  have 4: "observe (isScrolling \<circ> snd) (idleExpired (idle_browser, paused)) = Some True"
    by blast
  from H h ready'
  have 5: "observe (isScrolling \<circ> snd) (idleExpired (idle_browser, hovering)) \<noteq> Some True"
    by blast
  from 1 2 3 4 5 show ?thesis by blast
qed








lemmas sample_defs =
  started_def started_browser_def started_tracker_def idle_browser_def paused_def
  hovering_def dragging_def reversed_def impatient_def merge_options_def sample_options_def
  sample_news_def defaultOptions_def browser0_def empty_container_def








section \<open>The idle timer (C8, C6)\<close>

text \<open>
  \<open>start\<close> and the idle callback on a ticker that was built (its two track elements
  exist, the scroll speed is not 0): they return, and they leave the timers, the log and
  the clock as they are.
\<close>

lemma start_ok:
  assumes "scrollSpeed (config t) \<noteq> 0" "contentElements t = Some els"
  shows "\<exists>b' t'. start (b, t) = Ok (b', t') \<and> timers b' = timers b \<and> fired b' = fired b \<and>
           clock b' = clock b \<and> nextTimer b' = nextTimer b \<and>
           idleTimeoutId t' = idleTimeoutId t \<and> config t' = config t \<and>
           (\<exists>els'. contentElements t' = Some els') \<and>
           isDragging t' = isDragging t \<and> isHovered t' = isHovered t \<and>
           isScrolling t' = (isScrolling t \<or> contentWidth t \<noteq> 0)"
proof (cases "isScrolling t \<or> contentWidth t = 0")
  case True
  then show ?thesis using assms by (auto simp: start_def)
next
  case False
  let ?t = "t\<lparr>isScrolling := True, lastFrameTime := Some (clock b)\<rparr>"
  have "start (b, t) = animationLoop (b, ?t)" using False by (simp add: start_def)
  also note animationLoop_step [of ?t "clock b" els b]
  finally show ?thesis using assms False by simp
qed

lemma idleExpired_ok:
  assumes "scrollSpeed (config t) \<noteq> 0" "contentElements t = Some els"
  shows "\<exists>b' t'. idleExpired (b, t) = Ok (b', t') \<and> timers b' = timers b \<and>
           fired b' = fired b \<and> clock b' = clock b \<and> nextTimer b' = nextTimer b \<and>
           idleTimeoutId t' = idleTimeoutId t \<and> config t' = config t \<and>
           (\<exists>els'. contentElements t' = Some els') \<and>
           isScrolling t' =
             (isScrolling t \<or> contentWidth t \<noteq> 0 \<and> \<not> isDragging t \<and> \<not> isHovered t)"
proof (cases "\<not> isDragging t \<and> \<not> isHovered t")
  case True
  then have "idleExpired (b, t) = start (b, t)" by (simp add: idleExpired_def)
  with start_ok [OF assms, of b] True show ?thesis by auto
next
  case False
  then have "idleExpired (b, t) = Ok (b, t)" by (auto simp: idleExpired_def)
  with False assms show ?thesis by auto
qed

text \<open>
  When every pending timeout is the one \<open>idleTimeoutId\<close> names, \<open>recordInteraction\<close>
  leaves exactly the new one pending.
\<close>

lemma recordInteraction_tracked:
  assumes "\<forall>p \<in> set (timers b). Some (fst p) = idleTimeoutId t"
  shows "recordInteraction (b, t) =
    (b\<lparr>timers := [(Suc (nextTimer b), clock b + max 0 (idleTimeout (config t) * 1000))],
       nextTimer := Suc (nextTimer b)\<rparr>,
     t\<lparr>idleTimeoutId := Some (Suc (nextTimer b))\<rparr>)"
proof (cases "idleTimeoutId t")
  case None
  with assms have "timers b = []" by (cases "timers b") auto
  with None show ?thesis
    by (simp add: recordInteraction_def clearTimeout_def setTimeout_def)
next
  case (Some i)
  with assms have "filter (\<lambda>p. fst p \<noteq> i) (timers b) = []"
    by (auto simp: filter_empty_conv)
  with Some show ?thesis
    by (simp add: recordInteraction_def clearTimeout_def setTimeout_def)
qed

lemma advance_none_due:
  assumes "\<forall>p \<in> set (timers b). T < snd p"
  shows "advance T (b, t) = Ok (b\<lparr>clock := max (clock b) T\<rparr>, t)"
proof -
  have "filter (\<lambda>p. snd p \<le> T) (timers b) = []"
    using assms by (auto simp: filter_empty_conv)
  then show ?thesis by (simp add: advance_def bind_def)
qed

lemma advance_one_due:
  assumes "timers b = [(i, due)]" "due \<le> T" "clock b \<le> due"
    "scrollSpeed (config t) \<noteq> 0" "contentElements t = Some els"
  shows "\<exists>b' t'. advance T (b, t) = Ok (b', t') \<and> timers b' = [] \<and>
           fired b' = fired b @ [(i, due)] \<and> clock b' = T \<and>
           isScrolling t' =
             (isScrolling t \<or> contentWidth t \<noteq> 0 \<and> \<not> isDragging t \<and> \<not> isHovered t)"
proof -
  let ?b = "b\<lparr>timers := [], clock := due, fired := fired b @ [(i, due)]\<rparr>"
  have f: "filter (\<lambda>p. snd p \<le> T) (timers b) = [(i, due)]" using assms by simp
  have ft: "fireTimer (i, due) (b, t) = idleExpired (?b, t)"
    using assms by (simp add: fireTimer_def max_def)
  from idleExpired_ok [OF assms(4,5), of ?b]
  obtain b1 t1 where r: "idleExpired (?b, t) = Ok (b1, t1)" "timers b1 = []"
    "fired b1 = fired b @ [(i, due)]" "clock b1 = due"
    "isScrolling t1 =
       (isScrolling t \<or> contentWidth t \<noteq> 0 \<and> \<not> isDragging t \<and> \<not> isHovered t)"
    by auto
  have "advance T (b, t) = Ok (b1\<lparr>clock := max (clock b1) T\<rparr>, t1)"
    using f ft r(1) by (simp add: advance_def bind_def)
  with r assms(2) show ?thesis by (simp add: max_def)
qed


lemma interactions_pending:
  assumes "timers b = [(nextTimer b, a + d)]" "idleTimeoutId t = Some (nextTimer b)"
    "clock b = a" "d = idleTimeout (config t) * 1000" "0 < d" "gaps_below d (a # ats)"
  shows "\<exists>b' t'. interactions ats (b, t) = Ok (b', t') \<and>
           timers b' = [(nextTimer b + length ats, last (a # ats) + d)] \<and>
           nextTimer b' = nextTimer b + length ats \<and>
           clock b' = last (a # ats) \<and> fired b' = fired b \<and>
           t' = t\<lparr>idleTimeoutId := Some (nextTimer b + length ats)\<rparr>"
  using assms
proof (induction ats arbitrary: b t a)
  case Nil
  then show ?case by simp
next
  case (Cons c ats)
  from Cons.prems(6) have g: "a \<le> c" "c - a < d" "gaps_below d (c # ats)" by simp_all
  have adv: "advance c (b, t) = Ok (b\<lparr>clock := c\<rparr>, t)"
    using advance_none_due [of b c t] Cons.prems(1,3) g by (simp add: max_def)
  define b1 where "b1 = b\<lparr>clock := c, timers := [(Suc (nextTimer b), c + d)],
      nextTimer := Suc (nextTimer b)\<rparr>"
  define t1 where "t1 = t\<lparr>idleTimeoutId := Some (Suc (nextTimer b))\<rparr>"
  have rec: "recordInteraction (b\<lparr>clock := c\<rparr>, t) = (b1, t1)"
    using recordInteraction_tracked [of "b\<lparr>clock := c\<rparr>" t] Cons.prems(1,2,4,5)
    by (simp add: b1_def t1_def max_def)
  have "\<exists>b' t'. interactions ats (b1, t1) = Ok (b', t') \<and>
           timers b' = [(nextTimer b1 + length ats, last (c # ats) + d)] \<and>
           nextTimer b' = nextTimer b1 + length ats \<and>
           clock b' = last (c # ats) \<and> fired b' = fired b1 \<and>
           t' = t1\<lparr>idleTimeoutId := Some (nextTimer b1 + length ats)\<rparr>"
    apply (rule Cons.IH)
    using Cons.prems(4,5) g(3) by (simp_all add: b1_def t1_def)
  then obtain b' t' where r: "interactions ats (b1, t1) = Ok (b', t')"
    "timers b' = [(nextTimer b1 + length ats, last (c # ats) + d)]"
    "nextTimer b' = nextTimer b1 + length ats"
    "clock b' = last (c # ats)" "fired b' = fired b1"
    "t' = t1\<lparr>idleTimeoutId := Some (nextTimer b1 + length ats)\<rparr>"
    by blast
  have run: "interactions (c # ats) (b, t) = Ok (b', t')"
    using adv rec r(1) by (simp add: bind_def)
  show ?case
    apply (rule exI [of _ b'], rule exI [of _ t'])
    using run r(2-6) by (simp add: b1_def t1_def)
qed

lemma interactions_then_advance:
  assumes "timers b = []" "clock b \<le> a" "0 < idleTimeout (config t)"
    "gaps_below (idleTimeout (config t) * 1000) (a # ats)" "last (a # ats) \<le> T"
    "scrollSpeed (config t) \<noteq> 0" "contentElements t = Some els"
  shows "observe (fired \<circ> fst) (bind (interactions (a # ats) (b, t)) (advance T) id) =
    Some (fired b @
      (if last (a # ats) + idleTimeout (config t) * 1000 \<le> T
       then [(nextTimer b + Suc (length ats), last (a # ats) + idleTimeout (config t) * 1000)]
       else []))"
proof -
  let ?d = "idleTimeout (config t) * 1000"
  have d: "0 < ?d" using assms(3) by simp
  have adv: "advance a (b, t) = Ok (b\<lparr>clock := a\<rparr>, t)"
    using advance_none_due [of b a t] assms(1,2) by (simp add: max_def)
  define b1 where "b1 = b\<lparr>clock := a, timers := [(Suc (nextTimer b), a + ?d)],
      nextTimer := Suc (nextTimer b)\<rparr>"
  define t1 where "t1 = t\<lparr>idleTimeoutId := Some (Suc (nextTimer b))\<rparr>"
  have rec: "recordInteraction (b\<lparr>clock := a\<rparr>, t) = (b1, t1)"
    using recordInteraction_tracked [of "b\<lparr>clock := a\<rparr>" t] assms(1) d
    by (simp add: b1_def t1_def max_def)
  have "\<exists>b' t'. interactions ats (b1, t1) = Ok (b', t') \<and>
           timers b' = [(nextTimer b1 + length ats, last (a # ats) + ?d)] \<and>
           nextTimer b' = nextTimer b1 + length ats \<and>
           clock b' = last (a # ats) \<and> fired b' = fired b1 \<and>
           t' = t1\<lparr>idleTimeoutId := Some (nextTimer b1 + length ats)\<rparr>"
    apply (rule interactions_pending)
    using d assms(4) by (simp_all add: b1_def t1_def)
  then obtain b' t' where r: "interactions ats (b1, t1) = Ok (b', t')"
    "timers b' = [(nextTimer b + Suc (length ats), last (a # ats) + ?d)]"
    "clock b' = last (a # ats)" "fired b' = fired b"
    "t' = t\<lparr>idleTimeoutId := Some (nextTimer b + Suc (length ats))\<rparr>"
    by (auto simp: b1_def t1_def)
  have run: "interactions (a # ats) (b, t) = Ok (b', t')"
    using adv rec r(1) by (simp add: bind_def)
  have cfg: "scrollSpeed (config t') \<noteq> 0" "contentElements t' = Some els"
    using r(5) assms(6,7) by simp_all
  show ?thesis
  proof (cases "last (a # ats) + ?d \<le> T")
    case True
    have "clock b' \<le> last (a # ats) + ?d" using r(3) d by simp
    from advance_one_due [OF r(2) True this cfg, of] r(4)
    obtain b2 t2 where "advance T (b', t') = Ok (b2, t2)"
      "fired b2 = fired b @ [(nextTimer b + Suc (length ats), last (a # ats) + ?d)]"
      by auto
    with run True show ?thesis by (simp add: bind_def observe_def)
  next
    case False
    then have "\<forall>p \<in> set (timers b'). T < snd p" using r(2) by simp
    from advance_none_due [OF this, of t'] run False r(4)
    show ?thesis by (simp add: bind_def observe_def)
  qed
qed


text \<open>
  Claim C8. \<open>recordInteraction\<close> clears the timeout that \<open>idleTimeoutId\<close> names before it
  sets the new one, so when the pending timeouts of the tracker are the tracked one (or
  none), exactly one is pending afterwards, the new one, and it is tracked again. For
  interactions at the times \<open>a # ats\<close>, each less than \<open>idleTimeout\<close> seconds after the
  one before, starting with no timeout pending: up to any time \<open>T\<close> after the last
  interaction the timeouts that have run are none when \<open>T\<close> is earlier than \<open>idleTimeout\<close>
  seconds after the last interaction, and exactly one otherwise, the one set by the last
  interaction, run at \<open>idleTimeout\<close> seconds after the last interaction.
\<close>

theorem idle_timer_debounced:
  "((\<forall>p \<in> set (timers b). Some (fst p) = idleTimeoutId t) \<longrightarrow>
      timers (fst (recordInteraction (b, t))) =
        [(Suc (nextTimer b), clock b + max 0 (idleTimeout (config t) * 1000))] \<and>
      idleTimeoutId (snd (recordInteraction (b, t))) = Some (Suc (nextTimer b))) \<and>
   (timers b = [] \<and> clock b \<le> a \<and> 0 < idleTimeout (config t) \<and>
    gaps_below (idleTimeout (config t) * 1000) (a # ats) \<and> last (a # ats) \<le> T \<and>
    scrollSpeed (config t) \<noteq> 0 \<and> contentElements t = Some els \<longrightarrow>
      observe (fired \<circ> fst) (bind (interactions (a # ats) (b, t)) (advance T) id) =
        Some (fired b @
          (if last (a # ats) + idleTimeout (config t) * 1000 \<le> T
           then [(nextTimer b + Suc (length ats),
                  last (a # ats) + idleTimeout (config t) * 1000)]
           else [])))"
proof (intro conjI impI)
  assume "\<forall>p \<in> set (timers b). Some (fst p) = idleTimeoutId t"
  from recordInteraction_tracked [OF this]
  show "timers (fst (recordInteraction (b, t))) =
        [(Suc (nextTimer b), clock b + max 0 (idleTimeout (config t) * 1000))]"
    and "idleTimeoutId (snd (recordInteraction (b, t))) = Some (Suc (nextTimer b))"
    by simp_all
next
  assume "timers b = [] \<and> clock b \<le> a \<and> 0 < idleTimeout (config t) \<and>
    gaps_below (idleTimeout (config t) * 1000) (a # ats) \<and> last (a # ats) \<le> T \<and>
    scrollSpeed (config t) \<noteq> 0 \<and> contentElements t = Some els"
  then show "observe (fired \<circ> fst) (bind (interactions (a # ats) (b, t)) (advance T) id) =
        Some (fired b @
          (if last (a # ats) + idleTimeout (config t) * 1000 \<le> T
           then [(nextTimer b + Suc (length ats),
                  last (a # ats) + idleTimeout (config t) * 1000)]
           else []))"
    using interactions_then_advance [of b a t ats T els] by blast
qed

theorem idle_timer_debounced_witness:
  "timers (fst (recordInteraction (idle_browser, paused))) = [(1, 5000)] \<and>
   timers (fst (recordInteraction (recordInteraction (idle_browser, paused)))) = [(2, 5000)] \<and>
   observe (fired \<circ> fst)
     (bind (interactions [1000, 4000, 8000] (idle_browser, paused)) (advance 12999) id) =
     Some [] \<and>
   observe (fired \<circ> fst)
     (bind (interactions [1000, 4000, 8000] (idle_browser, paused)) (advance 20000) id) =
     Some [(3, 13000)]"
proof -
  have tr: "\<forall>p \<in> set (timers idle_browser). Some (fst p) = idleTimeoutId paused"
    by (simp add: sample_defs)
  obtain b1 t1 where w1: "recordInteraction (idle_browser, paused) = (b1, t1)"
    by (cases "recordInteraction (idle_browser, paused)")
  from idle_timer_debounced [of idle_browser paused 1000 "[4000, 8000]" 12999
      "[Some 0, Some 0]"] tr
  have first: "timers (fst (recordInteraction (idle_browser, paused))) = [(1, 5000)]"
    "idleTimeoutId (snd (recordInteraction (idle_browser, paused))) = Some 1"
    by (simp_all add: sample_defs)
  with w1 have tr1: "\<forall>p \<in> set (timers b1). Some (fst p) = idleTimeoutId t1" by simp
  have b1: "nextTimer b1 = 1" "clock b1 = 0" "idleTimeout (config t1) = 5"
    using w1 by (auto simp: recordInteraction_def clearTimeout_def setTimeout_def sample_defs)
  from idle_timer_debounced [of b1 t1 1000 "[4000, 8000]" 12999 "[Some 0, Some 0]"] tr1 b1
  have second: "timers (fst (recordInteraction (recordInteraction (idle_browser, paused)))) =
      [(2, 5000)]"
    by (simp add: w1)
  have h: "timers idle_browser = [] \<and> clock idle_browser \<le> 1000 \<and>
      0 < idleTimeout (config paused) \<and>
      gaps_below (idleTimeout (config paused) * 1000) (1000 # [4000, 8000]) \<and>
      scrollSpeed (config paused) \<noteq> 0 \<and> contentElements paused = Some [Some 0, Some 0]"
    by (simp add: sample_defs)
  from idle_timer_debounced [of idle_browser paused 1000 "[4000, 8000]" 12999
      "[Some 0, Some 0]"] h
  have early: "observe (fired \<circ> fst)
     (bind (interactions [1000, 4000, 8000] (idle_browser, paused)) (advance 12999) id) =
     Some []"
    by (simp add: sample_defs del: interactions.simps)
  from idle_timer_debounced [of idle_browser paused 1000 "[4000, 8000]" 20000
      "[Some 0, Some 0]"] h
  have late: "observe (fired \<circ> fst)
     (bind (interactions [1000, 4000, 8000] (idle_browser, paused)) (advance 20000) id) =
     Some [(3, 13000)]"
    by (simp add: sample_defs del: interactions.simps)
  from first(1) second early late show ?thesis by simp
qed

text \<open>
  Claim C6 as stated fails: with \<open>idleTimeout = 0\<close>, \<open>recordInteraction\<close> sets a timeout
  that is due at once, and when it runs the paused driver is started.
\<close>

theorem idle_timeout_zero_counterexample:
  "idleTimeout (config impatient) = 0 \<and> timers idle_browser = [] \<and>
   timers (fst (recordInteraction (idle_browser, impatient))) = [(1, 0)] \<and>
   idleTimeoutId (snd (recordInteraction (idle_browser, impatient))) = Some 1 \<and>
   isScrolling impatient = False \<and>
   observe (fired \<circ> fst) (advance 0 (recordInteraction (idle_browser, impatient))) =
     Some [(1, 0)] \<and>
   observe (isScrolling \<circ> snd) (advance 0 (recordInteraction (idle_browser, impatient))) =
     Some True"
  by (simp add: sample_defs recordInteraction_def clearTimeout_def setTimeout_def
      advance_def fireTimer_def idleExpired_def start_def animationLoop_def
      applyScrollPosition_def requestAnimationFrame_def bind_def observe_def Let_def)

text \<open>
  Claim C6, amended. For an idle timeout of 0 or a negative number of seconds the idle
  timer is not disabled: \<open>recordInteraction\<close> sets the resume timeout as for any other
  value, due at the current time; it runs at once, and after it the driver runs if it
  ran before or if the ticker has a width other than 0 and is neither dragged nor
  hovered.
\<close>

theorem nonpositive_idle_timeout_fires_at_once:
  "idleTimeout (config t) \<le> 0 \<and> (\<forall>p \<in> set (timers b). Some (fst p) = idleTimeoutId t) \<and>
   scrollSpeed (config t) \<noteq> 0 \<and> contentElements t = Some els \<longrightarrow>
     timers (fst (recordInteraction (b, t))) = [(Suc (nextTimer b), clock b)] \<and>
     idleTimeoutId (snd (recordInteraction (b, t))) = Some (Suc (nextTimer b)) \<and>
     observe (fired \<circ> fst) (advance (clock b) (recordInteraction (b, t))) =
       Some (fired b @ [(Suc (nextTimer b), clock b)]) \<and>
     observe (isScrolling \<circ> snd) (advance (clock b) (recordInteraction (b, t))) =
       Some (isScrolling t \<or> contentWidth t \<noteq> 0 \<and> \<not> isDragging t \<and> \<not> isHovered t)"
proof
  assume a: "idleTimeout (config t) \<le> 0 \<and>
    (\<forall>p \<in> set (timers b). Some (fst p) = idleTimeoutId t) \<and>
    scrollSpeed (config t) \<noteq> 0 \<and> contentElements t = Some els"
  define b1 where "b1 = b\<lparr>timers := [(Suc (nextTimer b), clock b)],
      nextTimer := Suc (nextTimer b)\<rparr>"
  define t1 where "t1 = t\<lparr>idleTimeoutId := Some (Suc (nextTimer b))\<rparr>"
  have rec: "recordInteraction (b, t) = (b1, t1)"
    using recordInteraction_tracked [of b t] a
    by (simp add: b1_def t1_def max_def mult_le_0_iff)
  have "\<exists>b' t'. advance (clock b) (b1, t1) = Ok (b', t') \<and> timers b' = [] \<and>
           fired b' = fired b1 @ [(Suc (nextTimer b), clock b)] \<and> clock b' = clock b \<and>
           isScrolling t' =
             (isScrolling t1 \<or> contentWidth t1 \<noteq> 0 \<and> \<not> isDragging t1 \<and> \<not> isHovered t1)"
    apply (rule advance_one_due [of b1 _ _ _ t1 els])
    using a by (simp_all add: b1_def t1_def)
  then obtain b' t' where r: "advance (clock b) (b1, t1) = Ok (b', t')"
    "fired b' = fired b @ [(Suc (nextTimer b), clock b)]"
    "isScrolling t' =
       (isScrolling t \<or> contentWidth t \<noteq> 0 \<and> \<not> isDragging t \<and> \<not> isHovered t)"
    by (auto simp: b1_def t1_def)
  show "timers (fst (recordInteraction (b, t))) = [(Suc (nextTimer b), clock b)] \<and>
     idleTimeoutId (snd (recordInteraction (b, t))) = Some (Suc (nextTimer b)) \<and>
     observe (fired \<circ> fst) (advance (clock b) (recordInteraction (b, t))) =
       Some (fired b @ [(Suc (nextTimer b), clock b)]) \<and>
     observe (isScrolling \<circ> snd) (advance (clock b) (recordInteraction (b, t))) =
       Some (isScrolling t \<or> contentWidth t \<noteq> 0 \<and> \<not> isDragging t \<and> \<not> isHovered t)"
    using rec r by (simp add: observe_def b1_def t1_def)
qed

theorem nonpositive_idle_timeout_fires_at_once_witness:
  "timers (fst (recordInteraction (idle_browser, impatient))) = [(1, 0)] \<and>
   observe (fired \<circ> fst) (advance 0 (recordInteraction (idle_browser, impatient))) =
     Some [(1, 0)] \<and>
   observe (isScrolling \<circ> snd) (advance 0 (recordInteraction (idle_browser, impatient))) =
     Some True"
proof -
  have "idleTimeout (config impatient) \<le> 0 \<and>
    (\<forall>p \<in> set (timers idle_browser). Some (fst p) = idleTimeoutId impatient) \<and>
    scrollSpeed (config impatient) \<noteq> 0 \<and>
    contentElements impatient = Some [Some 0, Some 0]"
    by (simp add: sample_defs)
  with nonpositive_idle_timeout_fires_at_once [of impatient idle_browser "[Some 0, Some 0]"]
  have "timers (fst (recordInteraction (idle_browser, impatient))) =
      [(Suc (nextTimer idle_browser), clock idle_browser)] \<and>
     observe (fired \<circ> fst) (advance (clock idle_browser)
         (recordInteraction (idle_browser, impatient))) =
       Some (fired idle_browser @ [(Suc (nextTimer idle_browser), clock idle_browser)]) \<and>
     observe (isScrolling \<circ> snd) (advance (clock idle_browser)
         (recordInteraction (idle_browser, impatient))) =
       Some (isScrolling impatient \<or> contentWidth impatient \<noteq> 0 \<and>
         \<not> isDragging impatient \<and> \<not> isHovered impatient)"
    by blast
  moreover have "nextTimer idle_browser = 0" "clock idle_browser = 0" "fired idle_browser = []"
    "isScrolling impatient \<or> contentWidth impatient \<noteq> 0 \<and>
         \<not> isDragging impatient \<and> \<not> isHovered impatient"
    by (simp_all add: sample_defs)
  ultimately show ?thesis by simp
qed

section \<open>Resize (C7)\<close>

text \<open>
  Claim C7 as stated fails: a resize that measures 30 while the position is 50 leaves
  the position at 50, which is not in \<open>[0, 30)\<close>.
\<close>

theorem resize_counterexample:
  "observe (scrollPosition \<circ> snd) (onResize 30 (idle_browser, paused)) = Some 50 \<and>
   observe (contentWidth \<circ> snd) (onResize 30 (idle_browser, paused)) = Some 30 \<and>
   scrollPosition paused = 50 \<and> contentWidth paused = 1000"
  by (simp add: sample_defs onResize_def observe_def)

text \<open>
  Claim C7, amended. On a resize notification (the container holding the ticker
  structure) the listener stores the newly measured width in \<open>contentWidth\<close> and changes
  nothing else: \<open>scrollPosition\<close> is neither reset nor brought back into
  \<open>[0, contentWidth)\<close>, whatever the new width is.
\<close>

theorem resize_remeasures_only:
  "container t = Some el \<and> ticker el = Some items \<longrightarrow>
     onResize measured (b, t) = Ok (b, t\<lparr>contentWidth := measured\<rparr>)"
  by (simp add: onResize_def)

theorem resize_remeasures_only_witness:
  "onResize 30 (idle_browser, paused) = Ok (idle_browser, paused\<lparr>contentWidth := 30\<rparr>)"
proof -
  obtain el items where "container paused = Some el \<and> ticker el = Some items"
    by (simp add: sample_defs)
  with resize_remeasures_only [of paused el items 30 idle_browser] show ?thesis by blast
qed

section \<open>Themes (C10)\<close>

text \<open>
  What \<open>setTheme\<close> does for a name that the lookup does not find at all, and for a name
  that is an own property of \<open>themes\<close>.
\<close>

lemma setTheme_unknown:
  assumes "map_of (themes (config t)) name = None" "name \<notin> set object_prototype_keys"
  shows "setTheme name t = Ok t"
  using assms by (simp add: setTheme_def get_theme_def)

lemma setTheme_own:
  assumes "map_of (themes (config t)) name = Some th" "container t = Some el"
  shows "setTheme name t =
    Ok (t\<lparr>currentTheme := name,
          container := Some (el\<lparr>style_backgroundColor := background th,
            style_color := text_color th,
            ticker := map_option (map (\<lambda>it. it\<lparr>item_backgroundColor := itemBg th,
              item_border := ''1px solid '' @ itemBorder th\<rparr>)) (ticker el)\<rparr>)\<rparr>)"
  using assms
  by (simp add: setTheme_def get_theme_def get_field_def css_assign_def css_assign_border_def
      Let_def)

text \<open>
  Claim C10, at the input \<open>setTheme('constructor')\<close> on the sample ticker with the
  default themes. The name is not among the configured themes, yet the guard
  \<^verbatim>\<open>!this.config.themes[themeName]\<close> lets it pass, because the lookup finds the member
  that every plain object inherits, and \<open>currentTheme\<close> becomes \<open>constructor\<close>. The claim
  says that \<open>currentTheme\<close> stays as it is.
\<close>

theorem setTheme_inherited_name:
  "map_of (themes (config started_tracker)) ''constructor'' = None \<and>
   currentTheme started_tracker = ''default'' \<and>
   setTheme ''constructor'' started_tracker =
     Ok (started_tracker\<lparr>currentTheme := ''constructor''\<rparr>)"
  by (simp add: sample_defs setTheme_def get_theme_def get_field_def css_assign_def
      css_assign_border_def object_prototype_keys_def Let_def)

section \<open>Destruction (C4)\<close>

text \<open>\<open>destroy\<close> leaves the pending timeouts as they are.\<close>

lemma destroy_keeps_timers:
  "observe (timers \<circ> fst) (destroy (b, t)) =
     (if container t = None then None else Some (timers b))"
  by (simp add: destroy_def pause_def cancelAnimationFrame_def observe_def Let_def
      split: option.splits)

lemmas handler_defs =
  handleTouchStart_def handleTouchEnd_def recordInteraction_def clearTimeout_def
  setTimeout_def pause_def cancelAnimationFrame_def destroy_def advance_def fireTimer_def
  idleExpired_def start_def animationLoop_def applyScrollPosition_def
  requestAnimationFrame_def scheduled_def bind_def observe_def Let_def

text \<open>
  Claim C4, at the input: the started sample ticker is touched and released, then
  destroyed. The touch has left the idle timeout pending. \<open>destroy\<close> cancels the frame
  callback but not the timeout: one callback is still scheduled, also after a second
  \<open>destroy\<close> (which returns without error). When the timeout runs five seconds after
  the touch, the destroyed ticker's driver starts again and a frame callback is
  pending. The claim says that nothing is scheduled after \<open>destroy\<close>.
\<close>

theorem destroy_leaves_idle_timer:
  "observe (isDragging \<circ> snd) touched = Some False \<and>
   observe (timers \<circ> fst) touched = Some [(2, 5000)] \<and>
   observe (frames \<circ> fst) destroyed = Some [] \<and>
   observe (timers \<circ> fst) destroyed = Some [(2, 5000)] \<and>
   observe (scheduled \<circ> fst) destroyed = Some 1 \<and>
   observe (scheduled \<circ> fst) (bind destroyed destroy id) = Some 1 \<and>
   observe (isScrolling \<circ> snd) (bind destroyed (advance 5000) id) = Some True \<and>
   observe (frames \<circ> fst) (bind destroyed (advance 5000) id) = Some [2]"
  by (simp add: touched_def destroyed_def sample_defs handler_defs)


section \<open>Construction (C5)\<close>








end
